theory Spec2Isabelle
  imports Main
begin

section \<open>Exceptions\<close>

text \<open>
  The exception classes the two modules raise or let through.  The argument is the
  message the exception carries.  \<open>CancelledError\<close> is the only one that is not an
  instance of Python's \<open>Exception\<close> (on the interpreters where it derives from
  \<open>BaseException\<close>), which matters for the \<open>except Exception\<close> clause of
  \<open>Bot.disconnect\<close>.
\<close>

datatype exn =
    SocketConfigError string
  | LoginError string
  | ChannelPermissionError string
  | Kicked string
  | SocketIOError string
  | AttributeError string
  | ValueError string
  | KeyError string
  | TypeError string
  | StopIteration
  | CancelledError

fun is_Exception :: "exn \<Rightarrow> bool" where
  "is_Exception CancelledError = False"
| "is_Exception _ = True"

section \<open>The user model (user.py)\<close>

text \<open>
  \<open>class User\<close>.  The attribute \<open>_ip\<close> behind the property \<open>ip\<close> is the field
  \<open>ip\<close>; \<open>image\<close> and \<open>text\<close> are the fields \<open>image_url\<close> and \<open>text_html\<close>.  The result type
  \<open>'u\<close> of the external \<open>uncloak_ip\<close> is left open; \<open>None\<close> in \<open>uncloaked_ip\<close> is
  Python's \<open>None\<close>.
\<close>

record 'u user =
  name :: string
  password :: "string option"
  rank :: int
  image_url :: string
  text_html :: string
  afk :: bool
  muted :: bool
  smuted :: bool
  ip :: "string option"
  uncloaked_ip :: "'u option"
  aliases :: "string list"

text \<open>
  The dictionaries assigned to \<open>profile\<close> and \<open>meta\<close>: every key may be absent
  (\<open>None\<close>).  The value under \<open>'ip'\<close> may itself be \<open>None\<close> (JSON \<open>null\<close>).
\<close>

record profile_dict =
  p_image :: "string option"
  p_text :: "string option"

record meta_dict =
  m_afk :: "bool option"
  m_muted :: "bool option"
  m_smuted :: "bool option"
  m_ip :: "string option option"
  m_aliases :: "string list option"

text \<open>\<open>d.get(key, default)\<close>\<close>

definition dict_get :: "'a option \<Rightarrow> 'a \<Rightarrow> 'a" where
  "dict_get v dflt = (case v of None \<Rightarrow> dflt | Some x \<Rightarrow> x)"

text \<open>The setter of the property \<open>ip\<close> (lines 55-61).\<close>

definition set_ip :: "(string \<Rightarrow> 'u) \<Rightarrow> string option \<Rightarrow> 'u user \<Rightarrow> 'u user" where
  "set_ip uncloak_ip i u =
     (let u1 = u\<lparr>ip := i\<rparr>
      in case i of
           None \<Rightarrow> u1\<lparr>uncloaked_ip := None\<rparr>
         | Some a \<Rightarrow> u1\<lparr>uncloaked_ip := Some (uncloak_ip a)\<rparr>)"

text \<open>The setter of the property \<open>profile\<close> (lines 70-75).\<close>

definition set_profile :: "profile_dict option \<Rightarrow> 'u user \<Rightarrow> 'u user" where
  "set_profile profile u =
     (let p = (case profile of None \<Rightarrow> \<lparr>p_image = None, p_text = None\<rparr> | Some q \<Rightarrow> q)
      in u\<lparr>image_url := dict_get (p_image p) '''', text_html := dict_get (p_text p) ''''\<rparr>)"

text \<open>The setter of the property \<open>meta\<close> (lines 87-95).\<close>

definition empty_meta :: meta_dict where
  "empty_meta = \<lparr>m_afk = None, m_muted = None, m_smuted = None, m_ip = None, m_aliases = None\<rparr>"

definition set_meta :: "(string \<Rightarrow> 'u) \<Rightarrow> meta_dict option \<Rightarrow> 'u user \<Rightarrow> 'u user" where
  "set_meta uncloak_ip meta u =
     (let m = (case meta of None \<Rightarrow> empty_meta | Some q \<Rightarrow> q);
          u1 = u\<lparr>afk := dict_get (m_afk m) False\<rparr>;
          u2 = u1\<lparr>muted := dict_get (m_muted m) False\<rparr>;
          u3 = u2\<lparr>smuted := dict_get (m_smuted m) False\<rparr>;
          u4 = set_ip uncloak_ip (dict_get (m_ip m) None) u3
      in u4\<lparr>aliases := dict_get (m_aliases m) []\<rparr>)"

text \<open>\<open>User.update\<close> (lines 97-107): an argument that is \<open>None\<close> is skipped.\<close>

definition update :: "(string \<Rightarrow> 'u) \<Rightarrow> string option \<Rightarrow> int option \<Rightarrow> profile_dict option
    \<Rightarrow> meta_dict option \<Rightarrow> 'u user \<Rightarrow> 'u user" where
  "update uncloak_ip nm rk profile meta u =
     (let u1 = (case nm of None \<Rightarrow> u | Some n \<Rightarrow> u\<lparr>name := n\<rparr>);
          u2 = (case rk of None \<Rightarrow> u1 | Some r \<Rightarrow> u1\<lparr>rank := r\<rparr>);
          u3 = (case profile of None \<Rightarrow> u2 | Some p \<Rightarrow> set_profile (Some p) u2)
      in case meta of None \<Rightarrow> u3 | Some m \<Rightarrow> set_meta uncloak_ip (Some m) u3)"

text \<open>\<open>User.__init__\<close> (lines 19-33).\<close>

definition User :: "(string \<Rightarrow> 'u) \<Rightarrow> string \<Rightarrow> string option \<Rightarrow> int \<Rightarrow> profile_dict option
    \<Rightarrow> meta_dict option \<Rightarrow> 'u user" where
  "User uncloak_ip nm pw rk profile meta =
     update uncloak_ip None None profile meta
       \<lparr>name = nm, password = pw, rank = rk, image_url = '''', text_html = '''',
        afk = False, muted = False, smuted = False, ip = None, uncloaked_ip = None,
        aliases = []\<rparr>"

text \<open>
  The users a program can hold: built by the constructor, then changed by assigning
  \<open>ip\<close>, \<open>profile\<close> or \<open>meta\<close>, or by calling \<open>update\<close>.
\<close>

inductive reachable_user :: "(string \<Rightarrow> 'u) \<Rightarrow> 'u user \<Rightarrow> bool" for uncloak_ip where
  r_init: "reachable_user uncloak_ip (User uncloak_ip nm pw rk profile meta)"
| r_ip: "reachable_user uncloak_ip u \<Longrightarrow> reachable_user uncloak_ip (set_ip uncloak_ip i u)"
| r_profile: "reachable_user uncloak_ip u \<Longrightarrow> reachable_user uncloak_ip (set_profile profile u)"
| r_meta: "reachable_user uncloak_ip u \<Longrightarrow> reachable_user uncloak_ip (set_meta uncloak_ip meta u)"
| r_update: "reachable_user uncloak_ip u
     \<Longrightarrow> reachable_user uncloak_ip (update uncloak_ip nm rk profile meta u)"

definition ip_invariant :: "(string \<Rightarrow> 'u) \<Rightarrow> 'u user \<Rightarrow> bool" where
  "ip_invariant uncloak_ip u \<longleftrightarrow> uncloaked_ip u = map_option uncloak_ip (ip u)"

section \<open>The bot (bot.py)\<close>

subsection \<open>State\<close>

text \<open>
  What the bot does to the outside world is recorded, in order, in the field
  \<open>effects\<close>: lines written to the logger (level and format string), events emitted on
  the socket, sleeps, and the closing of the socket.
\<close>

datatype level = Info | Warning | Error

datatype payload =
    Credentials string "string option"
  | ChatData string "(string \<times> string) list" "string option"

datatype effect =
    Log level string
  | Emit string payload
  | Sleep int
  | SocketClose
  | HttpGet string

text \<open>
  A handler reference is either the bound method \<open>self._on_EVENT\<close> of the bot itself
  or some other callable, told apart by its identity.
\<close>

datatype handler = Internal string | External nat

text \<open>
  Modelled from the spec: the class \<open>Channel\<close> (module \<open>channel\<close>) is not part of the
  sources.  The spec describes its user collection as a container in which a user is
  looked up by name.  An entry of the collection is either the bot's own user object
  (\<open>_add_user\<close> puts \<open>self.user\<close> itself into the channel, so both names denote one
  object) or the object of another user.
\<close>

datatype 'u member = Self | Other "'u user"

text \<open>
  \<open>class Bot\<close>.  Of the channel only the attributes read or written by the functions
  below are kept.  \<open>handlers\<close> is a \<open>collections.defaultdict(list)\<close>; \<open>socket\<close> holds a
  handle of the transport while connected.
\<close>

record 'u bot =
  domain :: string
  channel_name :: string
  channel_password :: "string option"
  channel_users :: "'u member list"
  user :: "'u user"
  server :: "string option"
  socket :: "nat option"
  handlers :: "string \<rightharpoonup> handler list"
  effects :: "effect list"

definition do_effect :: "effect \<Rightarrow> 'u bot \<Rightarrow> 'u bot" where
  "do_effect e b = b\<lparr>effects := effects b @ [e]\<rparr>"

definition log :: "level \<Rightarrow> string \<Rightarrow> 'u bot \<Rightarrow> 'u bot" where
  "log l fmt b = do_effect (Log l fmt) b"

subsection \<open>The handler registry\<close>

text \<open>
  \<open>self.handlers[event]\<close> on a \<open>defaultdict(list)\<close>: a missing key is inserted with an
  empty list, which is returned.
\<close>

definition getitem_handlers :: "string \<Rightarrow> 'u bot \<Rightarrow> handler list \<times> 'u bot" where
  "getitem_handlers ev b =
     (case handlers b ev of
        None \<Rightarrow> ([], b\<lparr>handlers := (handlers b)(ev \<mapsto> [])\<rparr>)
      | Some hs \<Rightarrow> (hs, b))"

text \<open>The handler list of an event as a reader of the registry sees it.\<close>

definition handlers_of :: "'u bot \<Rightarrow> string \<Rightarrow> handler list" where
  "handlers_of b ev = (case handlers b ev of None \<Rightarrow> [] | Some hs \<Rightarrow> hs)"

text \<open>
  \<open>Bot.on\<close> (lines 263-271).  The loop appends to the list object stored under the
  event, so each test \<open>handler not in ev_handlers\<close> sees the handlers appended before.
\<close>

fun on_loop :: "string \<Rightarrow> handler list \<Rightarrow> 'u bot \<Rightarrow> 'u bot" where
  "on_loop ev [] b = b"
| "on_loop ev (h # hs) b =
     (let ev_handlers = handlers_of b ev
      in if h \<notin> set ev_handlers
         then on_loop ev hs
                (log Info ''on: %s %s'' (b\<lparr>handlers := (handlers b)(ev \<mapsto> ev_handlers @ [h])\<rparr>))
         else on_loop ev hs (log Info ''on: handler exists: %s %s'' b))"

definition on :: "string \<Rightarrow> handler list \<Rightarrow> 'u bot \<Rightarrow> 'u bot" where
  "on ev hs b = on_loop ev hs (snd (getitem_handlers ev b))"

text \<open>
  \<open>Bot.off\<close> (lines 273-281): \<open>list.remove\<close> deletes the first occurrence and raises
  \<open>ValueError\<close>, caught here, when there is none.
\<close>

fun off_loop :: "string \<Rightarrow> handler list \<Rightarrow> 'u bot \<Rightarrow> 'u bot" where
  "off_loop ev [] b = b"
| "off_loop ev (h # hs) b =
     (let ev_handlers = handlers_of b ev
      in if h \<in> set ev_handlers
         then off_loop ev hs
                (log Info ''off: %s %s'' (b\<lparr>handlers := (handlers b)(ev \<mapsto> remove1 h ev_handlers)\<rparr>))
         else off_loop ev hs (log Info ''off: handler not found: %s %s'' b))"

definition off :: "string \<Rightarrow> handler list \<Rightarrow> 'u bot \<Rightarrow> 'u bot" where
  "off ev hs b = off_loop ev hs (snd (getitem_handlers ev b))"

text \<open>
  \<open>Bot.trigger\<close> (lines 283-292).  What a handler does is given by \<open>call\<close>: applied to
  the handler, the event, the payload and the bot, it yields the bot the handler leaves
  behind and either the exception it raised or the truth value of what it returned.
  Besides the bot and the result, the loop returns the invocations it made, each with
  the handler, the arguments passed and that outcome.

  The loop walks the list found under the event when the call starts; a handler that
  registers or removes handlers of the very event being dispatched is outside this model.
\<close>

type_synonym ('u, 'd) call = "handler \<Rightarrow> string \<Rightarrow> 'd \<Rightarrow> 'u bot \<Rightarrow> 'u bot \<times> (exn + bool)"

type_synonym 'd invocation = "handler \<times> string \<times> 'd \<times> (exn + bool)"

fun trigger_loop :: "('u, 'd) call \<Rightarrow> handler list \<Rightarrow> string \<Rightarrow> 'd \<Rightarrow> 'u bot
    \<Rightarrow> 'd invocation list \<times> 'u bot \<times> (exn + unit)" where
  "trigger_loop call [] ev d b = ([], b, Inr ())"
| "trigger_loop call (h # hs) ev d b =
     (case call h ev d b of
        (b1, Inl ex) \<Rightarrow> ([(h, ev, d, Inl ex)], b1, Inl ex)
      | (b1, Inr stop) \<Rightarrow>
          if stop then ([(h, ev, d, Inr True)], b1, Inr ())
          else (case trigger_loop call hs ev d b1 of
                  (invs, res) \<Rightarrow> ((h, ev, d, Inr False) # invs, res)))"

definition trigger :: "('u, 'd) call \<Rightarrow> string \<Rightarrow> 'd \<Rightarrow> 'u bot
    \<Rightarrow> 'd invocation list \<times> 'u bot \<times> (exn + unit)" where
  "trigger call ev d b =
     (case getitem_handlers ev (log Info ''trigger: %s %s'' b) of
        (hs, b1) \<Rightarrow> trigger_loop call hs ev d b1)"

subsection \<open>Construction and the internal handlers\<close>

text \<open>
  \<open>Bot.__init__\<close> (lines 25-46) registers, for every attribute whose name starts with
  \<open>_on_\<close>, the bound method under the rest of the name; \<open>dir\<close> lists the names sorted.
\<close>

definition internal_events :: "string list" where
  "internal_events =
     [''addUser'', ''channelCSSJS'', ''channelOpts'', ''delete'', ''drinkCount'',
      ''emoteList'', ''kick'', ''mediaUpdate'', ''needPassword'', ''noflood'', ''playlist'',
      ''queue'', ''rank'', ''setCurrent'', ''setMotd'', ''setPermissions'',
      ''setPlaylistMeta'', ''setTemp'', ''setUserMeta'', ''userLeave'', ''usercount'',
      ''userlist'']"

definition Bot :: "(string \<Rightarrow> 'u) \<Rightarrow> string \<Rightarrow> string \<Rightarrow> string option \<Rightarrow> 'u member list
    \<Rightarrow> 'u user option \<Rightarrow> 'u bot" where
  "Bot uncloak_ip dmn ch_name ch_password ch_users usr =
     fold (\<lambda>ev. on ev [Internal ev]) internal_events
       \<lparr>domain = dmn, channel_name = ch_name, channel_password = ch_password,
        channel_users = ch_users,
        user = (case usr of None \<Rightarrow> User uncloak_ip '''' None (- 1) None None | Some u \<Rightarrow> u),
        server = None, socket = None, handlers = Map.empty, effects = []\<rparr>"

text \<open>
  The names an attribute lookup on a bot finds: the class attributes, the attributes
  set by \<open>__init__\<close> and the methods (those inherited from \<open>object\<close> are left out).
\<close>

definition bot_attributes :: "string list" where
  "bot_attributes =
     [''logger'', ''SOCKET_CONFIG_URL'', ''SOCKET_IO_URL'', ''GUEST_LOGIN_LIMIT'', ''MUTED'',
      ''get'', ''socket_io'', ''response_timeout'', ''restart_on_error'', ''domain'',
      ''channel'', ''user'', ''user_count'', ''loop'', ''server'', ''socket'', ''handlers'',
      ''_add_user'', ''get_socket_config'', ''disconnect'', ''connect'', ''login'', ''run'',
      ''on'', ''off'', ''trigger'', ''chat_message'']
     @ map (\<lambda>ev. ''_on_'' @ ev) internal_events"

text \<open>
  \<open>Bot._on_noflood\<close> (lines 77-78) reads the attribute \<open>loger\<close> of the bot and calls
  its method \<open>error\<close>.  A handler that returns \<open>None\<close> has returned a falsy value.
\<close>

definition on_noflood :: "string \<Rightarrow> 'd \<Rightarrow> 'u bot \<Rightarrow> 'u bot \<times> (exn + bool)" where
  "on_noflood ev d b =
     (if ''loger'' \<in> set bot_attributes
      then (log Error ''noflood: %s'' b, Inr False)
      else (b, Inl (AttributeError ''loger'')))"

text \<open>
  The handlers of a bot: \<open>_on_noflood\<close> as above; what every other handler does is
  the parameter \<open>other\<close>.
\<close>

definition bot_call :: "('u, 'd) call \<Rightarrow> ('u, 'd) call" where
  "bot_call other h ev d b =
     (if h = Internal ''noflood'' then on_noflood ev d b else other h ev d b)"






subsection \<open>Resolving the socket configuration\<close>

text \<open>
  The parsed socket configuration: a JSON object in which the keys \<open>error\<close> and
  \<open>servers\<close> may be absent, and in each server entry the keys \<open>url\<close> and \<open>secure\<close>.
\<close>

record server_entry =
  s_url :: "string option"
  s_secure :: "bool option"

record socket_config =
  c_error :: "string option"
  c_servers :: "server_entry list option"

definition SOCKET_CONFIG_URL :: "string \<Rightarrow> string \<Rightarrow> string" where
  "SOCKET_CONFIG_URL dmn ch = dmn @ ''/socketconfig/'' @ ch @ ''.json''"

definition SOCKET_IO_URL :: "string \<Rightarrow> string" where
  "SOCKET_IO_URL dmn = dmn @ ''/socket.io/''"

text \<open>
  \<open>next(srv['url'] for srv in conf['servers'] if srv['secure'])\<close>: the generator
  reads \<open>'secure'\<close> of each entry in turn and \<open>'url'\<close> of the first entry it accepts; a
  missing key raises \<open>KeyError\<close>, the end of the list \<open>StopIteration\<close>.
\<close>

fun first_secure :: "server_entry list \<Rightarrow> exn + string" where
  "first_secure [] = Inl StopIteration"
| "first_secure (srv # rest) =
     (case s_secure srv of
        None \<Rightarrow> Inl (KeyError ''secure'')
      | Some sec \<Rightarrow>
          if sec then (case s_url srv of None \<Rightarrow> Inl (KeyError ''url'') | Some u \<Rightarrow> Inr u)
          else first_secure rest)"

text \<open>\<open>next(srv['url'] for srv in conf['servers'])\<close>\<close>

fun first_any :: "server_entry list \<Rightarrow> exn + string" where
  "first_any [] = Inl StopIteration"
| "first_any (srv # rest) =
     (case s_url srv of None \<Rightarrow> Inl (KeyError ''url'') | Some u \<Rightarrow> Inr u)"

definition getitem_servers :: "socket_config \<Rightarrow> (server_entry list \<Rightarrow> exn + string) \<Rightarrow> exn + string" where
  "getitem_servers conf f =
     (case c_servers conf of None \<Rightarrow> Inl (KeyError ''servers'') | Some srvs \<Rightarrow> f srvs)"

text \<open>\<open>except (KeyError, StopIteration)\<close>\<close>

fun key_or_stop :: "exn \<Rightarrow> bool" where
  "key_or_stop (KeyError k) = True"
| "key_or_stop StopIteration = True"
| "key_or_stop _ = False"

text \<open>
  \<open>Bot.get_socket_config\<close> (lines 139-170).  \<open>fetched\<close> is what fetching the URL and
  parsing the answer gives: the parsed document, or the exception of \<open>self.get\<close> or
  \<open>json.loads\<close>.
\<close>

definition select_server :: "socket_config \<Rightarrow> 'u bot \<Rightarrow> 'u bot \<times> (exn + string)" where
  "select_server conf b =
     (case getitem_servers conf first_secure of
        Inr srv \<Rightarrow> (log Info ''secure server %s'' b, Inr srv)
      | Inl ex \<Rightarrow>
          if key_or_stop ex then
            (let b1 = log Info ''no secure servers'' b
             in case getitem_servers conf first_any of
                  Inr srv \<Rightarrow> (log Info ''server %s'' b1, Inr srv)
                | Inl ex1 \<Rightarrow>
                    if key_or_stop ex1
                    then (log Info ''no servers'' b1,
                          Inl (SocketConfigError ''no servers in socket config''))
                    else (b1, Inl ex1))
          else (b, Inl ex))"

definition get_socket_config :: "exn + socket_config \<Rightarrow> 'u bot \<Rightarrow> 'u bot \<times> (exn + unit)" where
  "get_socket_config fetched b =
     (let url0 = SOCKET_CONFIG_URL (domain b) (channel_name b);
          url = (if take 4 url0 = ''http'' then url0 else ''https://'' @ url0);
          b1 = do_effect (HttpGet url) (log Info ''get_socket_config %s'' b)
      in case fetched of
           Inl ex \<Rightarrow> (b1, Inl ex)
         | Inr conf \<Rightarrow>
             (let b2 = log Info ''%s'' b1
              in case c_error conf of
                   Some e \<Rightarrow> (b2, Inl (SocketConfigError e))
                 | None \<Rightarrow>
                     (case select_server conf b2 of
                        (b3, Inl ex) \<Rightarrow> (b3, Inl ex)
                      | (b3, Inr srv) \<Rightarrow> (b3\<lparr>server := Some (SOCKET_IO_URL srv)\<rparr>, Inr ()))))"

subsection \<open>Disconnecting\<close>

text \<open>
  \<open>Bot.disconnect\<close> (lines 172-184).  \<open>close_raises\<close> is what \<open>self.socket.close()\<close>
  does: it returns (\<open>None\<close>) or raises.  The \<open>finally\<close> clause runs on every path
  that entered the \<open>try\<close>.
\<close>

definition disconnect_finally :: "'u bot \<Rightarrow> 'u bot" where
  "disconnect_finally b = b\<lparr>socket := None, user := (user b)\<lparr>rank := - 1\<rparr>\<rparr>"

definition disconnect :: "exn option \<Rightarrow> 'u bot \<Rightarrow> 'u bot \<times> (exn + unit)" where
  "disconnect close_raises b =
     (case socket b of
        None \<Rightarrow> (b, Inr ())
      | Some sock \<Rightarrow>
          (let b1 = do_effect SocketClose (log Info ''disconnect %s'' b)
           in case close_raises of
                None \<Rightarrow> (disconnect_finally b1, Inr ())
              | Some ex \<Rightarrow>
                  if is_Exception ex
                  then (disconnect_finally (log Error ''socket.close(): %s: %r'' b1), Inl ex)
                  else (disconnect_finally b1, Inl ex)))"

subsection \<open>Sending a chat message\<close>

text \<open>
  \<open>Bot.chat_message\<close> (lines 294-315).  \<open>permission\<close> is what the external
  \<open>Channel.check_permission('chat', self.user)\<close> does (it returns, or raises), and
  \<open>answer\<close> what \<open>self.socket.emit\<close> does: it raises, or returns \<open>None\<close> or the
  dictionary of the \<open>noflood\<close> event.  A dictionary is truthy when it is not empty.
\<close>

definition chat_emit :: "exn + (string \<times> string) list option \<Rightarrow> string \<Rightarrow> payload \<Rightarrow> 'u bot
    \<Rightarrow> 'u bot \<times> (exn + unit)" where
  "chat_emit answer ev data b =
     (case socket b of
        None \<Rightarrow> (b, Inl (AttributeError ''emit''))
      | Some sock \<Rightarrow>
          (let b1 = do_effect (Emit ev data) b
           in case answer of
                Inl ex \<Rightarrow> (b1, Inl ex)
              | Inr None \<Rightarrow> (b1, Inr ())
              | Inr (Some res) \<Rightarrow>
                  if res \<noteq> []
                  then (log Error ''chat_message: noflood: %s'' b1,
                        Inl (ChannelPermissionError (dict_get (map_of res ''msg'') ''noflood'')))
                  else (b1, Inr ())))"

definition chat_message :: "exn option \<Rightarrow> exn + (string \<times> string) list option \<Rightarrow> string
    \<Rightarrow> string option \<Rightarrow> (string \<times> string) list option \<Rightarrow> 'u bot \<Rightarrow> 'u bot \<times> (exn + unit)" where
  "chat_message permission answer msg to meta b =
     (let b1 = log Info ''chat_message %s'' b
      in case permission of
           Some ex \<Rightarrow> (b1, Inl ex)
         | None \<Rightarrow>
             (let m = (case meta of None \<Rightarrow> [] | Some d \<Rightarrow> d)
              in case to of
                   Some t \<Rightarrow> chat_emit answer ''pm'' (ChatData msg m (Some t)) b1
                 | None \<Rightarrow>
                     if muted (user b1) \<or> smuted (user b1)
                     then (b1, Inl (ChannelPermissionError ''muted''))
                     else chat_emit answer ''chatMsg'' (ChatData msg m None) b1))"

subsection \<open>The guest login limit\<close>

text \<open>
  The regular expressions of the module \<open>re\<close>, as far as \<open>GUEST_LOGIN_LIMIT\<close> needs
  them: a pattern is a sequence of items, each a single character, a greedy
  repetition of one, or the opening or closing parenthesis of the capturing group.
  A \<open>char\<close> stands for a code point below 256.  Under \<open>re.I\<close> a letter of the pattern
  matches both of its cases (\<open>lower\<close> is the code point of the lower-case form); \<open>.\<close> matches everything but the line feed; \<open>[0-9]\<close>
  matches the ten ASCII digits.
\<close>

datatype atom = Lit char | AnyChar | Digit

datatype item = One atom | Star atom | Plus atom | GroupOpen | GroupClose

definition lower :: "char \<Rightarrow> nat" where
  "lower c = (let n = of_char c :: nat in if 65 \<le> n \<and> n \<le> 90 then n + 32 else n)"

fun atom_matches :: "atom \<Rightarrow> char \<Rightarrow> bool" where
  "atom_matches (Lit x) c = (lower c = lower x)"
| "atom_matches AnyChar c = (c \<noteq> CHR 0x0A)"
| "atom_matches Digit c = (48 \<le> (of_char c :: nat) \<and> (of_char c :: nat) \<le> 57)"

text \<open>
  The backtracking matcher.  \<open>rx_match p s st g\<close> matches the pattern \<open>p\<close> at the
  start of \<open>s\<close>; \<open>st\<close> is the rest of the subject at the last opening parenthesis and
  \<open>g\<close> the text captured so far.  The result is \<open>None\<close> when no way of matching
  succeeds, and the captured text of the first way that does otherwise.  A greedy
  repetition first tries to take one more character and gives it back only when the
  rest of the pattern fails.
\<close>

fun rx_match :: "item list \<Rightarrow> string \<Rightarrow> string option \<Rightarrow> string option \<Rightarrow> string option option" where
  "rx_match [] s st g = Some g"
| "rx_match (One a # r) [] st g = None"
| "rx_match (One a # r) (c # cs) st g = (if atom_matches a c then rx_match r cs st g else None)"
| "rx_match (Star a # r) [] st g = rx_match r [] st g"
| "rx_match (Star a # r) (c # cs) st g =
     (if atom_matches a c
      then (case rx_match (Star a # r) cs st g of
              Some res \<Rightarrow> Some res
            | None \<Rightarrow> rx_match r (c # cs) st g)
      else rx_match r (c # cs) st g)"
| "rx_match (Plus a # r) [] st g = None"
| "rx_match (Plus a # r) (c # cs) st g =
     (if atom_matches a c then rx_match (Star a # r) cs st g else None)"
| "rx_match (GroupOpen # r) s st g = rx_match r s (Some s) g"
| "rx_match (GroupClose # r) s st g =
     rx_match r s st (case st of None \<Rightarrow> None | Some s0 \<Rightarrow> Some (take (length s0 - length s) s0))"

text \<open>\<open>pattern.match(s)\<close>: the match is anchored at the start of \<open>s\<close> only.\<close>

definition re_match :: "item list \<Rightarrow> string \<Rightarrow> string option option" where
  "re_match p s = rx_match p s None None"

definition lits :: "string \<Rightarrow> item list" where
  "lits s = map (\<lambda>c. One (Lit c)) s"



subsection \<open>Logging in\<close>



subsection \<open>Notions used in the statements\<close>

text \<open>
  A server entry as the interface describes it carries both keys; an entry of a parsed
  document need not.
\<close>

definition has_keys :: "server_entry \<Rightarrow> bool" where
  "has_keys srv \<longleftrightarrow> s_url srv \<noteq> None \<and> s_secure srv \<noteq> None"

definition is_secure :: "server_entry \<Rightarrow> bool" where
  "is_secure srv \<longleftrightarrow> s_secure srv = Some True"

definition example_config :: "server_entry list option \<Rightarrow> socket_config" where
  "example_config srvs = \<lparr>c_error = None, c_servers = srvs\<rparr>"

definition entry :: "string \<Rightarrow> bool \<Rightarrow> server_entry" where
  "entry u sec = \<lparr>s_url = Some u, s_secure = Some sec\<rparr>"

text \<open>
  The choice of a server, said without the generators: the scan for a secure server
  passes the entries whose flag is present and false and looks at the first other
  entry, which is chosen when its flag is true and it has a \<open>url\<close>; otherwise the
  choice falls back on the \<open>url\<close> of the first entry of the list.
\<close>

definition not_secure :: "server_entry \<Rightarrow> bool" where
  "not_secure srv \<longleftrightarrow> s_secure srv = Some False"

definition secure_choice :: "server_entry list \<Rightarrow> string option" where
  "secure_choice srvs =
     (case dropWhile not_secure srvs of
        [] \<Rightarrow> None
      | srv # rest \<Rightarrow> if is_secure srv then s_url srv else None)"

definition fallback_choice :: "server_entry list \<Rightarrow> string option" where
  "fallback_choice srvs = (case srvs of [] \<Rightarrow> None | srv # rest \<Rightarrow> s_url srv)"

definition chosen_server :: "socket_config \<Rightarrow> string option" where
  "chosen_server conf =
     (case c_servers conf of
        None \<Rightarrow> None
      | Some srvs \<Rightarrow>
          (case secure_choice srvs of Some u \<Rightarrow> Some u | None \<Rightarrow> fallback_choice srvs))"

text \<open>A list of servers whose first entry has no \<open>secure\<close> key.\<close>

definition servers_missing_flag :: "server_entry list" where
  "servers_missing_flag = [\<lparr>s_url = Some ''A'', s_secure = None\<rparr>, entry ''B'' True]"



text \<open>
  The pattern as the specification words it, \<open>guest logins ... limited ... N seconds.\<close>,
  with each ellipsis read as any text: it asks for the word \<open>limited\<close>.
\<close>

definition worded_limit_pattern :: "item list" where
  "worded_limit_pattern =
     lits ''guest logins '' @ [Star AnyChar] @ lits ''limited'' @ [Star AnyChar] @ lits '' ''
       @ [GroupOpen, Plus Digit, GroupClose] @ lits '' seconds.''"





subsection \<open>Example states\<close>

text \<open>
  A connected bot whose user has been muted, and the handlers of a channel in which
  the handler \<open>External 0\<close> answers every event with a truthy value.
\<close>

definition muted_bot :: "string bot" where
  "muted_bot =
     (Bot rev ''example.org'' ''lobby'' None []
        (Some (User rev ''bot'' None 1 None (Some (empty_meta\<lparr>m_muted := Some True\<rparr>)))))
     \<lparr>socket := Some 0\<rparr>"






section \<open>Properties of the user model\<close>

lemma ip_invariant_set_ip: "ip_invariant f (set_ip f i u)"
  by (cases i) (simp_all add: ip_invariant_def set_ip_def)

lemma ip_invariant_set_profile: "ip_invariant f u \<Longrightarrow> ip_invariant f (set_profile p u)"
  by (simp add: ip_invariant_def set_profile_def Let_def)

lemma ip_invariant_aliases: "ip_invariant f (u\<lparr>aliases := xs\<rparr>) = ip_invariant f u"
  by (simp add: ip_invariant_def)

lemma ip_invariant_set_meta: "ip_invariant f (set_meta f m u)"
  by (simp add: set_meta_def Let_def ip_invariant_aliases ip_invariant_set_ip)

lemma ip_invariant_name_rank:
  "ip_invariant f (u\<lparr>name := n\<rparr>) = ip_invariant f u"
  "ip_invariant f (u\<lparr>rank := r\<rparr>) = ip_invariant f u"
  by (simp_all add: ip_invariant_def)

lemma ip_invariant_update: "ip_invariant f u \<Longrightarrow> ip_invariant f (update f nm rk p m u)"
  by (cases nm; cases rk; cases p; cases m)
    (simp_all add: update_def ip_invariant_name_rank ip_invariant_set_profile
       ip_invariant_set_meta)

lemma ip_invariant_User: "ip_invariant f (User f nm pw rk p m)"
  unfolding User_def by (rule ip_invariant_update) (simp add: ip_invariant_def)

text \<open>
  C10.  Every user that the constructor and then any sequence of assignments to
  \<open>ip\<close>, \<open>profile\<close>, \<open>meta\<close> and calls of \<open>update\<close> can produce satisfies:
  \<open>uncloaked_ip\<close> is \<open>None\<close> exactly when \<open>ip\<close> is \<open>None\<close>, and when \<open>ip\<close> holds an
  address, \<open>uncloaked_ip\<close> is the external uncloaking function applied to it.
\<close>

theorem user_ip_invariant:
  "reachable_user uncloak_ip u \<Longrightarrow>
     (uncloaked_ip u = None \<longleftrightarrow> ip u = None) \<and>
     (\<forall>a. ip u = Some a \<longrightarrow> uncloaked_ip u = Some (uncloak_ip a))"
proof -
  assume "reachable_user uncloak_ip u"
  then have "ip_invariant uncloak_ip u"
  proof (induction rule: reachable_user.induct)
    case (r_init nm pw rk profile meta)
    show ?case by (rule ip_invariant_User)
  next
    case (r_ip u i)
    show ?case by (rule ip_invariant_set_ip)
  next
    case (r_profile u profile)
    then show ?case by (simp add: ip_invariant_set_profile)
  next
    case (r_meta u meta)
    show ?case by (rule ip_invariant_set_meta)
  next
    case (r_update u nm rk profile meta)
    then show ?case by (simp add: ip_invariant_update)
  qed
  then show ?thesis
    by (auto simp: ip_invariant_def)
qed

theorem user_ip_invariant_witness:
  "reachable_user rev (set_ip rev (Some ''10.0.0.1'') (User rev ''bob'' None 1 None None))
   \<and> ip (set_ip rev (Some ''10.0.0.1'') (User rev ''bob'' None 1 None None)) = Some ''10.0.0.1''
   \<and> uncloaked_ip (set_ip rev (Some ''10.0.0.1'') (User rev ''bob'' None 1 None None))
       = Some ''1.0.0.01''"
proof -
  have r: "reachable_user rev (set_ip rev (Some ''10.0.0.1'') (User rev ''bob'' None 1 None None))"
    by (intro r_ip r_init)
  have i: "ip (set_ip rev (Some ''10.0.0.1'') (User rev ''bob'' None 1 None None)) = Some ''10.0.0.1''"
    by (simp add: set_ip_def)
  from user_ip_invariant [OF r] i r show ?thesis by simp
qed

section \<open>Properties of the bot\<close>

subsection \<open>What registration leaves alone\<close>

lemma on_loop_frame:
  "user (on_loop ev hs b) = user b"
  "socket (on_loop ev hs b) = socket b"
  "server (on_loop ev hs b) = server b"
  "channel_users (on_loop ev hs b) = channel_users b"
  by (induction hs arbitrary: b) (simp_all add: Let_def log_def do_effect_def)

lemma on_frame:
  "user (on ev hs b) = user b"
  "socket (on ev hs b) = socket b"
  "server (on ev hs b) = server b"
  "channel_users (on ev hs b) = channel_users b"
  by (simp_all add: on_def on_loop_frame getitem_handlers_def split: option.splits)

lemma fold_on_frame:
  "user (fold (\<lambda>ev. on ev [Internal ev]) evs b) = user b"
  "socket (fold (\<lambda>ev. on ev [Internal ev]) evs b) = socket b"
  "server (fold (\<lambda>ev. on ev [Internal ev]) evs b) = server b"
  "channel_users (fold (\<lambda>ev. on ev [Internal ev]) evs b) = channel_users b"
  by (induction evs arbitrary: b) (simp_all add: on_frame)

lemma Bot_frame:
  "user (Bot f dmn ch pw us usr)
     = (case usr of None \<Rightarrow> User f '''' None (- 1) None None | Some u \<Rightarrow> u)"
  "socket (Bot f dmn ch pw us usr) = None"
  "server (Bot f dmn ch pw us usr) = None"
  "channel_users (Bot f dmn ch pw us usr) = us"
  by (simp_all add: Bot_def fold_on_frame)

lemma handlers_Bot_noflood:
  "handlers (Bot f dmn ch pw us usr) ''noflood'' = Some [Internal ''noflood'']"
  by (simp add: Bot_def internal_events_def on_def getitem_handlers_def handlers_of_def
      log_def do_effect_def)

lemma muted_bot_muted: "muted (user muted_bot)"
  by (simp add: muted_bot_def Bot_frame User_def update_def set_meta_def set_ip_def
      empty_meta_def dict_get_def)

lemma muted_bot_socket: "socket muted_bot = Some 0"
  by (simp add: muted_bot_def)

subsection \<open>Disconnecting\<close>

text \<open>
  C7.  On a connected bot \<open>disconnect\<close> always leaves the socket unset and the rank
  of the bot's user at \<open>-1\<close>, whatever closing the socket does.  When closing raises,
  the exception is raised again by \<open>disconnect\<close>, and when it is an instance of
  \<open>Exception\<close> it has been logged as an error before.
\<close>

theorem disconnect_clears:
  "socket b = Some sock \<Longrightarrow>
     socket (fst (disconnect close_raises b)) = None
     \<and> rank (user (fst (disconnect close_raises b))) = - 1
     \<and> (close_raises = None \<longrightarrow> snd (disconnect close_raises b) = Inr ())
     \<and> (\<forall>ex. close_raises = Some ex \<longrightarrow>
           snd (disconnect close_raises b) = Inl ex
           \<and> (is_Exception ex \<longrightarrow>
                effects (fst (disconnect close_raises b)) =
                  effects b @ [Log Info ''disconnect %s'', SocketClose,
                               Log Error ''socket.close(): %s: %r'']))"
  by (cases close_raises)
    (simp_all add: disconnect_def disconnect_finally_def log_def do_effect_def Let_def)

theorem disconnect_clears_witness:
  "socket muted_bot = Some 0
   \<and> socket (fst (disconnect (Some (SocketIOError ''closed'')) muted_bot)) = None
   \<and> rank (user (fst (disconnect (Some (SocketIOError ''closed'')) muted_bot))) = - 1
   \<and> snd (disconnect (Some (SocketIOError ''closed'')) muted_bot) = Inl (SocketIOError ''closed'')"
proof -
  have s: "socket muted_bot = Some 0" by (rule muted_bot_socket)
  from disconnect_clears [OF s, of "Some (SocketIOError ''closed'')"] s
  show ?thesis by simp
qed

text \<open>
  C8.  On a bot whose socket is unset \<open>disconnect\<close> returns at once: it raises
  nothing and changes nothing.  Hence, when closing the socket succeeds, a first call
  returns normally and leaves the socket unset, and a second call right after it returns
  normally too and leaves the bot as the first call left it.
\<close>

theorem disconnect_idempotent:
  "(socket b = None \<longrightarrow> disconnect close_raises b = (b, Inr ()))
   \<and> snd (disconnect None b) = Inr ()
   \<and> socket (fst (disconnect None b)) = None
   \<and> disconnect close_raises (fst (disconnect None b)) = (fst (disconnect None b), Inr ())"
  by (cases "socket b")
    (simp_all add: disconnect_def disconnect_finally_def log_def do_effect_def Let_def)

theorem disconnect_idempotent_witness:
  "socket (fst (disconnect None muted_bot)) = None
   \<and> disconnect (Some (SocketIOError ''closed'')) (fst (disconnect None muted_bot))
       = (fst (disconnect None muted_bot), Inr ())"
  using disconnect_idempotent [of "fst (disconnect None muted_bot)" "Some (SocketIOError ''closed'')"]
    disconnect_idempotent [of muted_bot "Some (SocketIOError ''closed'')"]
  by simp

subsection \<open>Chat messages of a muted user\<close>

text \<open>
  C5, as the claim states it, fails: a muted user who names a recipient is not
  stopped.  With the chat permission granted and the socket answering nothing, the call
  below emits the event \<open>pm\<close> and returns normally.
\<close>

theorem chat_message_muted_pm_counterexample:
  "muted (user muted_bot)
   \<and> chat_message None (Inr None) ''hi'' (Some ''bob'') None muted_bot
       = (muted_bot\<lparr>effects := effects muted_bot
            @ [Log Info ''chat_message %s'', Emit ''pm'' (ChatData ''hi'' [] (Some ''bob''))]\<rparr>,
          Inr ())"
  using muted_bot_muted muted_bot_socket
  by (simp add: chat_message_def chat_emit_def log_def do_effect_def Let_def)

text \<open>
  C5, amended.  When the bot's user is muted or shadow-muted and the chat permission
  is granted, \<open>chat_message\<close> without a recipient raises \<open>ChannelPermissionError\<close>
  having done nothing but write its log line: nothing is emitted, whatever the socket
  would have answered.  With a recipient the mute flags are not looked at and, on a
  connected bot, the event \<open>pm\<close> is emitted.
\<close>

theorem chat_message_muted:
  "muted (user b) \<or> smuted (user b) \<Longrightarrow>
     chat_message None answer msg None meta b
       = (log Info ''chat_message %s'' b, Inl (ChannelPermissionError ''muted''))
     \<and> effects (fst (chat_message None answer msg None meta b))
       = effects b @ [Log Info ''chat_message %s'']
     \<and> (\<forall>sock t. socket b = Some sock \<longrightarrow>
           effects (fst (chat_message None (Inr None) msg (Some t) meta b))
             = effects b @ [Log Info ''chat_message %s'',
                  Emit ''pm'' (ChatData msg (case meta of None \<Rightarrow> [] | Some d \<Rightarrow> d) (Some t))])"
  by (auto simp add: chat_message_def chat_emit_def log_def do_effect_def Let_def)

theorem chat_message_muted_witness:
  "muted (user muted_bot)
   \<and> snd (chat_message None (Inr None) ''hi'' None None muted_bot)
       = Inl (ChannelPermissionError ''muted'')
   \<and> effects (fst (chat_message None (Inr None) ''hi'' None None muted_bot))
       = effects muted_bot @ [Log Info ''chat_message %s'']"
proof -
  have m1: "muted (user muted_bot)" by (rule muted_bot_muted)
  then have m: "muted (user muted_bot) \<or> smuted (user muted_bot)" by simp
  from chat_message_muted [OF m, of "Inr None" "''hi''" None] m1 show ?thesis
    by (simp add: log_def do_effect_def)
qed

subsection \<open>The noflood handler\<close>

text \<open>
  C6 does not hold of the code.  On a bot as \<open>__init__\<close> builds it, whatever the
  payload, triggering \<open>noflood\<close> invokes the one handler registered for the event,
  \<open>_on_noflood\<close>, and this raises \<open>AttributeError\<close>: the bot has no attribute
  \<open>loger\<close>.  Nothing is logged by the handler, and \<open>trigger\<close> passes the exception on.
\<close>

theorem noflood_raises:
  "trigger (bot_call other) ''noflood'' d (Bot f dmn ch pw us usr)
     = ([(Internal ''noflood'', ''noflood'', d, Inl (AttributeError ''loger''))],
        log Info ''trigger: %s %s'' (Bot f dmn ch pw us usr),
        Inl (AttributeError ''loger''))"
proof -
  have a: "''loger'' \<notin> set bot_attributes"
    by (simp add: bot_attributes_def internal_events_def)
  have h: "handlers (log Info ''trigger: %s %s'' (Bot f dmn ch pw us usr)) ''noflood''
      = Some [Internal ''noflood'']"
    using handlers_Bot_noflood [of f dmn ch pw us usr] by (simp add: log_def do_effect_def)
  show ?thesis
    by (simp add: trigger_def getitem_handlers_def h bot_call_def on_noflood_def a)
qed

subsection \<open>Resolving the socket configuration\<close>

lemma first_secure_choice:
  "first_secure srvs =
     (case secure_choice srvs of
        Some u \<Rightarrow> Inr u
      | None \<Rightarrow> first_secure srvs)"
  "secure_choice srvs = None \<Longrightarrow> \<exists>ex. first_secure srvs = Inl ex \<and> key_or_stop ex"
proof -
  show "first_secure srvs =
     (case secure_choice srvs of Some u \<Rightarrow> Inr u | None \<Rightarrow> first_secure srvs)"
    by (induction srvs)
      (auto simp: secure_choice_def not_secure_def is_secure_def split: option.splits)
  show "secure_choice srvs = None \<Longrightarrow> \<exists>ex. first_secure srvs = Inl ex \<and> key_or_stop ex"
    by (induction srvs)
      (auto simp: secure_choice_def not_secure_def is_secure_def split: option.splits if_splits)
qed

lemma first_any_choice:
  "first_any srvs =
     (case fallback_choice srvs of
        Some u \<Rightarrow> Inr u
      | None \<Rightarrow> first_any srvs)"
  "fallback_choice srvs = None \<Longrightarrow> \<exists>ex. first_any srvs = Inl ex \<and> key_or_stop ex"
  by (cases srvs; auto simp: fallback_choice_def split: option.splits)+

lemma select_server_chosen:
  "chosen_server conf = Some u \<Longrightarrow>
     snd (select_server conf b) = Inr u \<and> server (fst (select_server conf b)) = server b"
proof (cases "c_servers conf")
  case None
  assume "chosen_server conf = Some u"
  with None show ?thesis by (simp add: chosen_server_def)
next
  case (Some srvs)
  assume c: "chosen_server conf = Some u"
  show ?thesis
  proof (cases "secure_choice srvs")
    case (Some v)
    with c \<open>c_servers conf = Some srvs\<close> have "v = u" by (simp add: chosen_server_def)
    with Some first_secure_choice(1) [of srvs] have "first_secure srvs = Inr u" by simp
    with \<open>c_servers conf = Some srvs\<close> show ?thesis
      by (simp add: select_server_def getitem_servers_def log_def do_effect_def)
  next
    case None
    from first_secure_choice(2) [OF None] obtain ex
      where ex: "first_secure srvs = Inl ex" "key_or_stop ex" by blast
    from c None \<open>c_servers conf = Some srvs\<close> have "fallback_choice srvs = Some u"
      by (simp add: chosen_server_def)
    with first_any_choice(1) [of srvs] have "first_any srvs = Inr u" by simp
    with ex \<open>c_servers conf = Some srvs\<close> show ?thesis
      by (simp add: select_server_def getitem_servers_def log_def do_effect_def Let_def)
  qed
qed

lemma select_server_no_choice:
  "chosen_server conf = None \<Longrightarrow>
     snd (select_server conf b) = Inl (SocketConfigError ''no servers in socket config'')
     \<and> server (fst (select_server conf b)) = server b"
proof (cases "c_servers conf")
  case None
  then show ?thesis
    by (simp add: select_server_def getitem_servers_def log_def do_effect_def Let_def)
next
  case (Some srvs)
  assume c: "chosen_server conf = None"
  with Some have n: "secure_choice srvs = None" and f: "fallback_choice srvs = None"
    by (auto simp: chosen_server_def split: option.splits)
  from first_secure_choice(2) [OF n] obtain ex
    where ex: "first_secure srvs = Inl ex" "key_or_stop ex" by blast
  from first_any_choice(2) [OF f] obtain ex1
    where ex1: "first_any srvs = Inl ex1" "key_or_stop ex1" by blast
  from ex ex1 Some show ?thesis
    by (simp add: select_server_def getitem_servers_def log_def do_effect_def Let_def)
qed

lemma secure_choice_find:
  "list_all has_keys srvs \<Longrightarrow>
     secure_choice srvs = (case find is_secure srvs of None \<Rightarrow> None | Some srv \<Rightarrow> s_url srv)"
  by (induction srvs)
    (auto simp: secure_choice_def not_secure_def is_secure_def has_keys_def)

lemma find_Some_mem: "find P xs = Some x \<Longrightarrow> x \<in> set xs"
  by (induction xs) (auto split: if_splits)

lemma secure_choice_first:
  "list_all not_secure pre \<Longrightarrow> is_secure srv \<Longrightarrow>
     secure_choice (pre @ srv # post) = s_url srv"
  by (induction pre) (auto simp: secure_choice_def not_secure_def is_secure_def)

lemma get_socket_config_chosen:
  assumes "c_error conf = None" and "chosen_server conf = Some u"
  shows "snd (get_socket_config (Inr conf) b) = Inr ()"
    and "server (fst (get_socket_config (Inr conf) b)) = Some (SOCKET_IO_URL u)"
proof -
  define b2 where "b2 = log Info ''%s'' (do_effect (HttpGet
      (if take 4 (SOCKET_CONFIG_URL (domain b) (channel_name b)) = ''http''
       then SOCKET_CONFIG_URL (domain b) (channel_name b)
       else ''https://'' @ SOCKET_CONFIG_URL (domain b) (channel_name b)))
      (log Info ''get_socket_config %s'' b))"
  obtain b3 r where sel: "select_server conf b2 = (b3, r)" by (cases "select_server conf b2")
  with select_server_chosen [OF assms(2), of b2] have r: "r = Inr u" by simp
  from assms(1) sel r show "snd (get_socket_config (Inr conf) b) = Inr ()"
    and "server (fst (get_socket_config (Inr conf) b)) = Some (SOCKET_IO_URL u)"
    by (simp_all add: get_socket_config_def Let_def b2_def)
qed

lemma get_socket_config_no_choice:
  assumes "c_error conf = None" and "chosen_server conf = None"
  shows "snd (get_socket_config (Inr conf) b)
      = Inl (SocketConfigError ''no servers in socket config'')"
    and "server (fst (get_socket_config (Inr conf) b)) = server b"
proof -
  define b2 where "b2 = log Info ''%s'' (do_effect (HttpGet
      (if take 4 (SOCKET_CONFIG_URL (domain b) (channel_name b)) = ''http''
       then SOCKET_CONFIG_URL (domain b) (channel_name b)
       else ''https://'' @ SOCKET_CONFIG_URL (domain b) (channel_name b)))
      (log Info ''get_socket_config %s'' b))"
  have sb: "server b2 = server b" by (simp add: b2_def log_def do_effect_def)
  obtain b3 r where sel: "select_server conf b2 = (b3, r)" by (cases "select_server conf b2")
  with select_server_no_choice [OF assms(2), of b2]
  have r: "r = Inl (SocketConfigError ''no servers in socket config'')"
    and s3: "server b3 = server b2" by simp_all
  from assms(1) sel r s3 sb show "snd (get_socket_config (Inr conf) b)
      = Inl (SocketConfigError ''no servers in socket config'')"
    and "server (fst (get_socket_config (Inr conf) b)) = server b"
    by (simp_all add: get_socket_config_def Let_def b2_def)
qed

text \<open>
  C2, as the claim states it, fails on a document in which an entry before the first
  secure one has no \<open>secure\<close> key.  In the servers \<open>[{url: A}, {url: B, secure: true}]\<close>
  the first entry whose flag is true is the second, yet the scan for a secure server
  ends with \<open>KeyError\<close> at the first entry and the fallback resolves \<open>A\<close>.
\<close>

theorem get_socket_config_missing_flag_counterexample:
  "find is_secure servers_missing_flag = Some (entry ''B'' True)
   \<and> snd (get_socket_config (Inr (example_config (Some servers_missing_flag))) muted_bot)
       = Inr ()
   \<and> server (fst (get_socket_config (Inr (example_config (Some servers_missing_flag)))
        muted_bot)) = Some ''A/socket.io/''"
  by (simp add: servers_missing_flag_def example_config_def entry_def is_secure_def
      get_socket_config_def select_server_def getitem_servers_def Let_def log_def
      do_effect_def SOCKET_IO_URL_def)

text \<open>
  C2, amended.  A document with an \<open>error\<close> key makes \<open>get_socket_config\<close> raise
  \<open>SocketConfigError\<close>.  Without one, the scan for a secure server passes the entries
  whose flag is present and false and chooses the first other entry if its flag is true
  and it has a \<open>url\<close>; in every other case (no entry left, or an entry without the
  key \<open>secure\<close> or without \<open>url\<close> stops the scan) the \<open>url\<close> of the first entry of the list
  is chosen; and when there is none (the list is empty, the key \<open>servers\<close> is absent, or
  that first entry has no \<open>url\<close>) it raises \<open>SocketConfigError\<close>.  The chosen URL is
  stored in \<open>server\<close>, put into the pattern \<open>SOCKET_IO_URL\<close>; a failure leaves \<open>server\<close>
  as it was.  In particular the first entry whose flag is true is chosen whenever the
  entries before it carry a false flag and it carries a \<open>url\<close>, and on a document all
  of whose entries carry both keys the choice is the first secure entry, or else the
  first entry.
\<close>

theorem get_socket_config_selection:
  "(\<forall>e. c_error conf = Some e \<longrightarrow>
       snd (get_socket_config (Inr conf) b) = Inl (SocketConfigError e)
       \<and> server (fst (get_socket_config (Inr conf) b)) = server b)
   \<and> (c_error conf = None \<longrightarrow>
        (\<forall>u. chosen_server conf = Some u \<longrightarrow>
           snd (get_socket_config (Inr conf) b) = Inr ()
           \<and> server (fst (get_socket_config (Inr conf) b)) = Some (SOCKET_IO_URL u))
        \<and> (chosen_server conf = None \<longrightarrow>
           snd (get_socket_config (Inr conf) b)
             = Inl (SocketConfigError ''no servers in socket config'')
           \<and> server (fst (get_socket_config (Inr conf) b)) = server b))
   \<and> (c_servers conf = None \<or> c_servers conf = Some [] \<longrightarrow> chosen_server conf = None)
   \<and> (\<forall>pre srv post. c_servers conf = Some (pre @ srv # post) \<longrightarrow> list_all not_secure pre
         \<longrightarrow> is_secure srv \<longrightarrow> s_url srv \<noteq> None \<longrightarrow> chosen_server conf = s_url srv)
   \<and> (\<forall>srvs. c_servers conf = Some srvs \<longrightarrow> list_all has_keys srvs \<longrightarrow>
         chosen_server conf =
           (case find is_secure srvs of
              Some srv \<Rightarrow> s_url srv
            | None \<Rightarrow> (case srvs of [] \<Rightarrow> None | srv # rest \<Rightarrow> s_url srv)))"
proof (intro conjI allI impI)
  fix e assume "c_error conf = Some e"
  then show "snd (get_socket_config (Inr conf) b) = Inl (SocketConfigError e)"
    and "server (fst (get_socket_config (Inr conf) b)) = server b"
    by (simp_all add: get_socket_config_def Let_def log_def do_effect_def)
next
  fix u assume "c_error conf = None" and "chosen_server conf = Some u"
  then show "snd (get_socket_config (Inr conf) b) = Inr ()"
    and "server (fst (get_socket_config (Inr conf) b)) = Some (SOCKET_IO_URL u)"
    by (rule get_socket_config_chosen)+
next
  assume "c_error conf = None" and "chosen_server conf = None"
  then show "snd (get_socket_config (Inr conf) b)
      = Inl (SocketConfigError ''no servers in socket config'')"
    and "server (fst (get_socket_config (Inr conf) b)) = server b"
    by (rule get_socket_config_no_choice)+
next
  assume "c_servers conf = None \<or> c_servers conf = Some []"
  then show "chosen_server conf = None"
    by (auto simp: chosen_server_def secure_choice_def fallback_choice_def)
next
  fix pre srv post
  assume "c_servers conf = Some (pre @ srv # post)" and "list_all not_secure pre"
    and "is_secure srv" and "s_url srv \<noteq> None"
  then show "chosen_server conf = s_url srv"
    by (auto simp: chosen_server_def secure_choice_first)
next
  fix srvs
  assume s: "c_servers conf = Some srvs" and k: "list_all has_keys srvs"
  show "chosen_server conf =
      (case find is_secure srvs of
         Some srv \<Rightarrow> s_url srv
       | None \<Rightarrow> (case srvs of [] \<Rightarrow> None | srv # rest \<Rightarrow> s_url srv))"
  proof (cases "find is_secure srvs")
    case None
    with s k show ?thesis
      by (simp add: chosen_server_def secure_choice_find fallback_choice_def)
  next
    case (Some srv)
    then have "srv \<in> set srvs" by (rule find_Some_mem)
    with k have "has_keys srv" by (simp add: list_all_iff)
    then obtain u where "s_url srv = Some u" by (auto simp: has_keys_def)
    with s k Some show ?thesis
      by (simp add: chosen_server_def secure_choice_find)
  qed
qed

theorem get_socket_config_selection_witness:
  "server (fst (get_socket_config
      (Inr (example_config (Some [entry ''A'' False, entry ''B'' True]))) muted_bot))
     = Some ''B/socket.io/''
   \<and> server (fst (get_socket_config
      (Inr (example_config (Some [entry ''A'' False]))) muted_bot))
     = Some ''A/socket.io/''
   \<and> snd (get_socket_config (Inr (example_config (Some []))) muted_bot)
     = Inl (SocketConfigError ''no servers in socket config'')
   \<and> snd (get_socket_config (Inr (example_config None)) muted_bot)
     = Inl (SocketConfigError ''no servers in socket config'')
   \<and> snd (get_socket_config (Inr \<lparr>c_error = Some ''down'', c_servers = None\<rparr>) muted_bot)
     = Inl (SocketConfigError ''down'')"
  using
    get_socket_config_selection [of "example_config (Some [entry ''A'' False, entry ''B'' True])" muted_bot]
    get_socket_config_selection [of "example_config (Some [entry ''A'' False])" muted_bot]
    get_socket_config_selection [of "example_config (Some [])" muted_bot]
    get_socket_config_selection [of "example_config None" muted_bot]
    get_socket_config_selection [of "\<lparr>c_error = Some ''down'', c_servers = None\<rparr>" muted_bot]
  by (simp add: example_config_def entry_def has_keys_def is_secure_def not_secure_def
      chosen_server_def secure_choice_def fallback_choice_def SOCKET_IO_URL_def)

subsection \<open>The guest login limit\<close>














lemma worded_limited:
  "re_match worded_limit_pattern ''guest logins are limited to 1 per 30 seconds.'' = Some (Some ''30'')"
  by (simp add: re_match_def worded_limit_pattern_def lits_def lower_def)








subsection \<open>Dispatching an event\<close>














subsection \<open>Registering a handler\<close>

















subsection \<open>The meta data of a user\<close>












end
